theory Spec2Isabelle
  imports
    Complex_Main
    "HOL-Library.Char_ord"
    "HOL-Library.List_Lexorder"
    "HOL-Library.AList"
    "HOL-Library.Multiset"
begin

section \<open>Python values, exceptions and the file system\<close>

text \<open>
  The three subcommands of \<^verbatim>\<open>senzing-mapping-assistant.py\<close> (\<^verbatim>\<open>do_prepare\<close>,
  \<^verbatim>\<open>do_train\<close>, \<^verbatim>\<open>do_test_phrase\<close>) are embedded as functions over an explicit
  file system. The configuration values (\<^verbatim>\<open>jsonlines_file\<close>, \<^verbatim>\<open>output_directory\<close>,
  \<^verbatim>\<open>input_directory\<close>, \<^verbatim>\<open>model_file\<close>, \<^verbatim>\<open>test_phrase\<close>) are passed as plain
  strings (a value that is not set, \<^verbatim>\<open>None\<close>, is not modelled); argument parsing,
  configuration lookup and logging are left out. An uncaught Python exception is a value
  of \<open>py_error\<close>; a function with side effects returns the file system as it is when the
  function returns or raises. A dictionary keeps its keys in insertion order.
\<close>

datatype py_error =
    JSONDecodeError
  | AttributeError
  | FileExistsError
  | FileNotFoundError
  | NotADirectoryError
  | IsADirectoryError
  | UnpicklingError
  | UnicodeDecodeError
  | ValueError
  | IndexError

text \<open>
  What \<^verbatim>\<open>json.loads\<close> returns: a dictionary, given by its items in insertion order, or
  any other JSON value. The values of a dictionary are of an arbitrary type \<open>'v\<close>; how
  \<^verbatim>\<open>"{0}\n".format(value)\<close> prints one is a parameter \<open>str\<close> of \<open>do_prepare\<close>.
  \<^verbatim>\<open>json.loads\<close> itself is a parameter \<open>json_loads\<close>.
\<close>

datatype 'v json = JObject "(string \<times> 'v) list" | JOther

fun items :: "'v json \<Rightarrow> py_error + (string \<times> 'v) list" where
  "items (JObject kvs) = Inr kvs"
| "items JOther = Inl AttributeError"

text \<open>
  scikit-learn's \<^verbatim>\<open>Bunch\<close> as \<^verbatim>\<open>load_files\<close> builds it. A document is the raw
  content of a file: text, or bytes that are not text. A file name is kept as a path, a
  label is the index of a category in \<open>target_names\<close>.
\<close>

datatype document = Utf8 string | Binary

record bunch =
  data :: "document list"
  filenames :: "string list list"
  target_names :: "string list"
  target :: "nat list"

text \<open>
  The fitted classifier of \<^verbatim>\<open>MultinomialNB\<close>: the class labels, the log-prior of each
  class and, for each class, the log-likelihood of each vocabulary term.
\<close>

record classifier =
  classes :: "nat list"
  class_log_prior :: "real list"
  feature_log_prob :: "real list list"

text \<open>
  The objects a pickle file can hold here: the \<^verbatim>\<open>Bunch\<close> that \<^verbatim>\<open>do_train\<close> dumps,
  and the tuple (vocabulary, IDF weights, classifier parameters, category names).
\<close>

datatype pyobj =
    Bunch bunch
  | ModelTuple "string list" "real list" classifier "string list"

text \<open>
  The file system: the directories that exist and the regular files with their content.
  A path is the list of its components: \<open>path_of\<close> splits a path string at \<^verbatim>\<open>/\<close> and
  drops empty components, so \<^verbatim>\<open>out//color\<close> and \<^verbatim>\<open>out/color\<close> are one path. All
  paths are taken relative to one directory, the empty path, which always exists;
  \<^verbatim>\<open>.\<close>, \<^verbatim>\<open>..\<close> and links are not interpreted. A regular file holds text or the
  pickle of an object (the byte format of pickle is not modelled).
\<close>

type_synonym path = "string list"

datatype content = Text string | Pickled pyobj

record filesystem =
  dirs :: "path list"
  files :: "(path \<times> content) list"

fun split_at :: "char \<Rightarrow> string \<Rightarrow> string list" where
  "split_at sep [] = [[]]"
| "split_at sep (c # cs) =
     (if c = sep then [] # split_at sep cs
      else (case split_at sep cs of
              [] \<Rightarrow> [[c]]
            | w # ws \<Rightarrow> (c # w) # ws))"

definition path_of :: "string \<Rightarrow> path" where
  "path_of name = filter (\<lambda>w. w \<noteq> []) (split_at (CHR ''/'') name)"

definition is_dir :: "filesystem \<Rightarrow> path \<Rightarrow> bool" where
  "is_dir fs p = (p = [] \<or> p \<in> set (dirs fs))"

definition is_file :: "filesystem \<Rightarrow> path \<Rightarrow> bool" where
  "is_file fs p = (map_of (files fs) p \<noteq> None)"

definition ancestors :: "path \<Rightarrow> path list" where
  "ancestors p = map (\<lambda>n. take n p) [1..<length p]"

text \<open>
  \<^verbatim>\<open>os.makedirs(name)\<close> with \<^verbatim>\<open>exist_ok=False\<close>: raises when the leaf exists, creates
  the missing intermediate directories and the leaf otherwise.
\<close>

definition os_makedirs :: "string \<Rightarrow> filesystem \<Rightarrow> filesystem \<times> py_error option" where
  "os_makedirs name fs =
     (let p = path_of name in
      if is_dir fs p \<or> is_file fs p then (fs, Some FileExistsError)
      else if \<exists>q \<in> set (ancestors p). is_file fs q then (fs, Some NotADirectoryError)
      else (fs\<lparr>dirs := dirs fs @ filter (\<lambda>q. \<not> is_dir fs q) (ancestors p @ [p])\<rparr>, None))"

text \<open>
  \<^verbatim>\<open>open(filename, "w")\<close> (or \<^verbatim>\<open>"wb"\<close>), the writes and the close, as one step that
  leaves \<open>c\<close> as the content of the file.
\<close>

definition open_write :: "string \<Rightarrow> content \<Rightarrow> filesystem \<Rightarrow> filesystem \<times> py_error option" where
  "open_write filename c fs =
     (let p = path_of filename in
      if is_dir fs p then (fs, Some IsADirectoryError)
      else if \<exists>q \<in> set (ancestors p). is_file fs q then (fs, Some NotADirectoryError)
      else if \<not> is_dir fs (butlast p) then (fs, Some FileNotFoundError)
      else (fs\<lparr>files := AList.update p c (files fs)\<rparr>, None))"

text \<open>\<^verbatim>\<open>open(filename)\<close> for reading: the content of a regular file.\<close>

definition open_read :: "filesystem \<Rightarrow> string \<Rightarrow> py_error + content" where
  "open_read fs filename =
     (let p = path_of filename in
      if is_dir fs p then Inl IsADirectoryError
      else if \<exists>q \<in> set (ancestors p). is_file fs q then Inl NotADirectoryError
      else (case map_of (files fs) p of
              None \<Rightarrow> Inl FileNotFoundError
            | Some c \<Rightarrow> Inr c))"

text \<open>The lines of a text file as iteration over the file yields them, each with its newline.\<close>

definition newline :: string where
  "newline = [CHR 0x0A]"

fun readlines :: "string \<Rightarrow> string list" where
  "readlines [] = []"
| "readlines (c # cs) =
     (if [c] = newline then [c] # readlines cs
      else (case readlines cs of
              [] \<Rightarrow> [[c]]
            | l # ls \<Rightarrow> (c # l) # ls))"

section \<open>Reading JSON lines\<close>

text \<open>
  What a generator does when it is run to its end: the items it yields, in order, and the
  exception that ends it, if one does.
\<close>

datatype 'a generated = Generated (yielded: "'a list") (raised: "py_error option")

text \<open>
  The loop of \<^verbatim>\<open>result_function\<close>: \<open>counter\<close> is the number of lines read before this
  one. A line past the cap, or any line when \<open>max_lines\<close> is 0, ends the generator.
\<close>

fun result_function ::
  "(string \<Rightarrow> py_error + 'j) \<Rightarrow> int \<Rightarrow> int \<Rightarrow> string list \<Rightarrow> 'j generated" where
  "result_function json_loads max_lines counter [] = Generated [] None"
| "result_function json_loads max_lines counter (line # rest) =
     (let counter = counter + 1 in
      if max_lines \<noteq> 0 \<and> counter \<le> max_lines
      then (case json_loads line of
              Inl e \<Rightarrow> Generated [] (Some e)
            | Inr dictionary \<Rightarrow>
                (case result_function json_loads max_lines counter rest of
                   Generated ds r \<Rightarrow> Generated (dictionary # ds) r))
      else Generated [] None)"

definition get_generator_from_jsonlines ::
  "(string \<Rightarrow> py_error + 'j) \<Rightarrow> filesystem \<Rightarrow> string \<Rightarrow> int \<Rightarrow> 'j generated" where
  "get_generator_from_jsonlines json_loads fs jsonlines_filename max_lines =
     (case open_read fs jsonlines_filename of
        Inl e \<Rightarrow> Generated [] (Some e)
      | Inr (Pickled obj) \<Rightarrow> Generated [] (Some UnicodeDecodeError)
      | Inr (Text s) \<Rightarrow> result_function json_loads max_lines 0 (readlines s))"

section \<open>The prepare subcommand\<close>

text \<open>
  \<^verbatim>\<open>key_values\<close> is a dictionary from a key to the list of its values, in insertion
  order: an association list with one entry per key.
\<close>

type_synonym 'v key_values = "(string \<times> 'v list) list"

definition append_value :: "'v key_values \<Rightarrow> string \<times> 'v \<Rightarrow> 'v key_values" where
  "append_value key_values kv =
     (case kv of (key, v) \<Rightarrow>
        (let key_values =
               (if key \<notin> set (map fst key_values) then key_values @ [(key, [])]
                else key_values)
         in map (\<lambda>(k, vs). if k = key then (k, vs @ [v]) else (k, vs)) key_values))"

fun collect_key_values :: "'v key_values \<Rightarrow> 'v json list \<Rightarrow> py_error + 'v key_values" where
  "collect_key_values key_values [] = Inr key_values"
| "collect_key_values key_values (dictionary # rest) =
     (case items dictionary of
        Inl e \<Rightarrow> Inl e
      | Inr kvs \<Rightarrow> collect_key_values (foldl append_value key_values kvs) rest)"

definition lower_char :: "char \<Rightarrow> char" where
  "lower_char c =
     (case map_of (zip ''ABCDEFGHIJKLMNOPQRSTUVWXYZ'' ''abcdefghijklmnopqrstuvwxyz'') c of
        None \<Rightarrow> c
      | Some l \<Rightarrow> l)"

text \<open>\<^verbatim>\<open>key.lower()\<close>, on ASCII letters.\<close>

definition lower :: "string \<Rightarrow> string" where
  "lower s = map lower_char s"

fun write_output_files ::
  "('v \<Rightarrow> string) \<Rightarrow> string \<Rightarrow> 'v key_values \<Rightarrow> filesystem \<Rightarrow> filesystem \<times> py_error option" where
  "write_output_files str output_directory [] fs = (fs, None)"
| "write_output_files str output_directory ((key, values) # rest) fs =
     (let directory = output_directory @ ''/'' @ lower key;
          filename = directory @ ''/'' @ key @ ''.txt''
      in case os_makedirs directory fs of
           (fs1, Some e) \<Rightarrow> (fs1, Some e)
         | (fs1, None) \<Rightarrow>
             (case open_write filename (Text (concat (map (\<lambda>v. str v @ newline) values))) fs1 of
                (fs2, Some e) \<Rightarrow> (fs2, Some e)
              | (fs2, None) \<Rightarrow> write_output_files str output_directory rest fs2))"

text \<open>
  \<^verbatim>\<open>do_prepare\<close>: the records the generator yields are grouped by key in memory; an
  exception in that loop leaves the file system as it was. Then one directory and one file
  are written per key.
\<close>

definition do_prepare ::
  "(string \<Rightarrow> py_error + 'v json) \<Rightarrow> ('v \<Rightarrow> string) \<Rightarrow> filesystem \<Rightarrow> string \<Rightarrow> string
     \<Rightarrow> filesystem \<times> py_error option" where
  "do_prepare json_loads str fs jsonlines_file output_directory =
     (case get_generator_from_jsonlines json_loads fs jsonlines_file 10000 of
        Generated dictionaries exc \<Rightarrow>
          (case collect_key_values [] dictionaries of
             Inl e \<Rightarrow> (fs, Some e)
           | Inr key_values \<Rightarrow>
               (case exc of
                  Some e \<Rightarrow> (fs, Some e)
                | None \<Rightarrow> write_output_files str output_directory key_values fs)))"

section \<open>The train subcommand\<close>

text \<open>
  The names in a directory, sorted, as \<^verbatim>\<open>sorted(listdir(p))\<close> gives them, and the
  bytes of a file.
\<close>

definition sorted_listdir :: "filesystem \<Rightarrow> path \<Rightarrow> string list" where
  "sorted_listdir fs p =
     sort (remdups (map last
       (filter (\<lambda>q. q \<noteq> [] \<and> butlast q = p) (dirs fs @ map fst (files fs)))))"

definition read_bytes :: "filesystem \<Rightarrow> path \<Rightarrow> document" where
  "read_bytes fs p = (case map_of (files fs) p of Some (Text s) \<Rightarrow> Utf8 s | _ \<Rightarrow> Binary)"

text \<open>
  Modelled from the spec: \<^verbatim>\<open>load_files\<close> is scikit-learn's and not part of the
  sources. Section 6 (train): the input is a directory tree where each immediate
  subdirectory name is a category label and each file inside is one training document.
  The categories are numbered in sorted order; a document's label is the number of its
  category. No check is made on the number of categories or of documents. (scikit-learn
  also applies a fixed permutation to the documents, which is left out.)
\<close>

definition load_files :: "filesystem \<Rightarrow> string \<Rightarrow> py_error + bunch" where
  "load_files fs container_path =
     (let p = path_of container_path in
      if is_file fs p \<or> (\<exists>q \<in> set (ancestors p). is_file fs q) then Inl NotADirectoryError
      else if \<not> is_dir fs p then Inl FileNotFoundError
      else
        (let folders = filter (\<lambda>f. is_dir fs (p @ [f])) (sorted_listdir fs p);
             documents = concat (map
               (\<lambda>(label, folder).
                  map (\<lambda>d. (label, p @ [folder, d])) (sorted_listdir fs (p @ [folder])))
               (enumerate 0 folders))
         in if \<exists>d \<in> set (map snd documents). is_dir fs d then Inl IsADirectoryError
            else Inr \<lparr>data = map (\<lambda>(label, d). read_bytes fs d) documents,
                      filenames = map snd documents,
                      target_names = folders,
                      target = map fst documents\<rparr>))"

text \<open>
  \<^verbatim>\<open>pickle.dump(obj, open(model_file, "wb"))\<close> and
  \<^verbatim>\<open>pickle.load(open(model_file, "rb"))\<close>.
\<close>

definition pickle_dump :: "pyobj \<Rightarrow> string \<Rightarrow> filesystem \<Rightarrow> filesystem \<times> py_error option" where
  "pickle_dump obj model_file fs = open_write model_file (Pickled obj) fs"

definition pickle_load :: "filesystem \<Rightarrow> string \<Rightarrow> py_error + pyobj" where
  "pickle_load fs model_file =
     (case open_read fs model_file of
        Inl e \<Rightarrow> Inl e
      | Inr (Text s) \<Rightarrow> Inl UnpicklingError
      | Inr (Pickled obj) \<Rightarrow> Inr obj)"

text \<open>\<^verbatim>\<open>do_train\<close>: load the files, dump what was loaded.\<close>

definition do_train :: "filesystem \<Rightarrow> string \<Rightarrow> string \<Rightarrow> filesystem \<times> py_error option" where
  "do_train fs input_directory model_file =
     (case load_files fs input_directory of
        Inl e \<Rightarrow> (fs, Some e)
      | Inr model \<Rightarrow> pickle_dump (Bunch model) model_file fs)"

section \<open>The test-phrase subcommand\<close>

text \<open>
  \<^verbatim>\<open>CountVectorizer\<close>, \<^verbatim>\<open>TfidfTransformer\<close> and \<^verbatim>\<open>MultinomialNB\<close> are
  scikit-learn's and not part of the sources; the source constructs each with its default
  arguments. They are modelled from sections 3 and 4 of the spec, over the real numbers. A
  matrix is the list of its rows, which have one length. The analyzer of the vectorizer
  (lower-casing and tokenising a text) is a parameter \<open>analyzer\<close>, the same at fitting and
  at prediction.
\<close>

text \<open>
  Modelled from the spec: \<^verbatim>\<open>CountVectorizer.fit_transform\<close> is missing. Vocabulary
  (section 3): the distinct terms of all training documents, each with a stable index,
  here its position in sorted order. Document-term matrix: cell (d, t) is the number of
  occurrences of term t in document d. A document that is not text cannot be decoded; a
  corpus without any term has no vocabulary.
\<close>

definition terms_of :: "(string \<Rightarrow> string list) \<Rightarrow> document \<Rightarrow> string list" where
  "terms_of analyzer d = (case d of Utf8 s \<Rightarrow> analyzer s | Binary \<Rightarrow> [])"

definition count_vect_fit_transform ::
  "(string \<Rightarrow> string list) \<Rightarrow> document list \<Rightarrow> py_error + string list \<times> nat list list" where
  "count_vect_fit_transform analyzer raw_documents =
     (if Binary \<in> set raw_documents then Inl UnicodeDecodeError
      else
        (let tokens = map (terms_of analyzer) raw_documents;
             vocabulary = sort (remdups (concat tokens))
         in if vocabulary = [] then Inl ValueError
            else Inr (vocabulary, map (\<lambda>ts. map (count_list ts) vocabulary) tokens)))"

text \<open>
  Modelled from the spec: \<^verbatim>\<open>CountVectorizer.transform\<close> is missing. Section 3: a term
  absent from the vocabulary at prediction time is ignored; only vocabulary terms are
  counted.
\<close>

definition count_vect_transform ::
  "(string \<Rightarrow> string list) \<Rightarrow> string list \<Rightarrow> string list \<Rightarrow> nat list list" where
  "count_vect_transform analyzer vocabulary samples =
     map (\<lambda>s. map (count_list (analyzer s)) vocabulary) samples"

text \<open>
  Modelled from the spec: \<^verbatim>\<open>TfidfTransformer.fit\<close> is missing. IDF weights (section
  3): weight(t) = log((1 + N) / (1 + df(t))) + 1, where the document frequency of a term
  is the number of non-zero cells in its column of the document-term matrix.
\<close>

definition n_features :: "'a list list \<Rightarrow> nat" where
  "n_features X = (case X of [] \<Rightarrow> 0 | row # _ \<Rightarrow> length row)"

definition document_frequency :: "nat list list \<Rightarrow> nat \<Rightarrow> nat" where
  "document_frequency counts j = length (filter (\<lambda>row. row ! j \<noteq> 0) counts)"

definition tfidf_fit :: "nat list list \<Rightarrow> real list" where
  "tfidf_fit counts =
     map (\<lambda>j. ln ((1 + real (length counts)) / (1 + real (document_frequency counts j))) + 1)
       [0..<n_features counts]"

text \<open>
  Modelled from the spec: \<^verbatim>\<open>TfidfTransformer.transform\<close> is missing. TF-IDF matrix
  (section 3): each cell scaled by tf(d, t) * idf(t), then each row divided by its L2
  norm; a row of zeros stays as it is.
\<close>

definition l2_normalize :: "real list \<Rightarrow> real list" where
  "l2_normalize row =
     (let norm = sqrt (sum_list (map (\<lambda>x. x * x) row))
      in if norm = 0 then row else map (\<lambda>x. x / norm) row)"

definition tfidf_transform :: "real list \<Rightarrow> nat list list \<Rightarrow> real list list" where
  "tfidf_transform idf counts =
     map (\<lambda>row. l2_normalize (map (\<lambda>(c, w). real c * w) (zip row idf))) counts"

text \<open>
  Modelled from the spec: \<^verbatim>\<open>MultinomialNB.fit\<close> is missing. Classifier parameters
  (section 3), with \<open>\<alpha> = 1\<close>: the log-prior of a class is the log of its fraction of the
  training documents; the log-likelihood of a term in a class is log((sum of the term's
  weight over the class's documents + \<alpha>) / (total weight in the class + \<alpha> * vocabulary
  size)). The classes are the labels that occur, sorted. Fitting needs as many labels as
  rows, and at least one row.
\<close>

definition feature_count :: "real list list \<Rightarrow> nat list \<Rightarrow> nat \<Rightarrow> real list" where
  "feature_count X y c =
     map (\<lambda>j. sum_list (map (\<lambda>(row, l). row ! j) (filter (\<lambda>(row, l). l = c) (zip X y))))
       [0..<n_features X]"

definition nb_fit :: "real list list \<Rightarrow> nat list \<Rightarrow> py_error + classifier" where
  "nb_fit X y =
     (if length X \<noteq> length y \<or> X = [] then Inl ValueError
      else
        (let cs = sort (remdups y);
             class_count = map (\<lambda>c. real (count_list y c)) cs;
             smoothed_fc = map (\<lambda>c. map (\<lambda>v. v + 1) (feature_count X y c)) cs
         in Inr \<lparr>classes = cs,
                  class_log_prior = map (\<lambda>n. ln n - ln (sum_list class_count)) class_count,
                  feature_log_prob =
                    map (\<lambda>row. map (\<lambda>v. ln v - ln (sum_list row)) row) smoothed_fc\<rparr>))"

text \<open>
  Modelled from the spec: \<^verbatim>\<open>MultinomialNB.predict\<close> is missing. Prediction (section
  4.4): the score of a class is its log-prior plus the sum of feature value times term
  log-likelihood; the class with the maximum score is selected, the first one on ties. A
  fitted classifier has at least one class.
\<close>

fun argmax :: "real list \<Rightarrow> nat" where
  "argmax [] = 0"
| "argmax [x] = 0"
| "argmax (x # y # ys) =
     (let i = argmax (y # ys) in if x < (y # ys) ! i then Suc i else 0)"

definition joint_log_likelihood :: "classifier \<Rightarrow> real list \<Rightarrow> real list" where
  "joint_log_likelihood clf x =
     map (\<lambda>(prior, flp). prior + sum_list (map (\<lambda>(v, w). v * w) (zip x flp)))
       (zip (class_log_prior clf) (feature_log_prob clf))"

definition nb_predict :: "classifier \<Rightarrow> real list list \<Rightarrow> nat list" where
  "nb_predict clf X = map (\<lambda>x. classes clf ! argmax (joint_log_likelihood clf x)) X"

text \<open>
  The fitting that \<^verbatim>\<open>do_test_phrase\<close> does on the loaded training set: the
  vocabulary, the IDF weights and the classifier.
\<close>

definition fit :: "(string \<Rightarrow> string list) \<Rightarrow> bunch \<Rightarrow> py_error + string list \<times> real list \<times> classifier" where
  "fit analyzer training_set =
     (case count_vect_fit_transform analyzer (data training_set) of
        Inl e \<Rightarrow> Inl e
      | Inr (vocabulary, training_counts) \<Rightarrow>
          (let idf = tfidf_fit training_counts;
               training_tfidf = tfidf_transform idf training_counts
           in case nb_fit training_tfidf (target training_set) of
                Inl e \<Rightarrow> Inl e
              | Inr clf \<Rightarrow> Inr (vocabulary, idf, clf)))"

text \<open>\<^verbatim>\<open>training_set.target_names[prediction]\<close>.\<close>

definition category_name :: "string list \<Rightarrow> nat \<Rightarrow> py_error + string" where
  "category_name names prediction =
     (if prediction < length names then Inr (names ! prediction) else Inl IndexError)"

text \<open>
  The prediction for the one sample: its counts over the fitted vocabulary, its TF-IDF
  vector, the predicted class and the name of that class.
\<close>

definition predict :: "(string \<Rightarrow> string list) \<Rightarrow> string list \<times> real list \<times> classifier \<Rightarrow> string list
    \<Rightarrow> string \<Rightarrow> py_error + string" where
  "predict analyzer fitted names test_phrase =
     (case fitted of (vocabulary, idf, clf) \<Rightarrow>
        (let samples = [test_phrase];
             sample_counts = count_vect_transform analyzer vocabulary samples;
             sample_tfidf = tfidf_transform idf sample_counts;
             predictions = nb_predict clf sample_tfidf
         in category_name names (hd predictions)))"

text \<open>
  \<^verbatim>\<open>do_test_phrase\<close>: load the pickle and read its attributes \<^verbatim>\<open>data\<close>,
  \<^verbatim>\<open>target\<close> and \<^verbatim>\<open>target_names\<close> (a tuple has none), fit, predict. The result is the
  category named in the logged message.
\<close>

definition do_test_phrase ::
  "(string \<Rightarrow> string list) \<Rightarrow> filesystem \<Rightarrow> string \<Rightarrow> string \<Rightarrow> py_error + string" where
  "do_test_phrase analyzer fs model_file test_phrase =
     (case pickle_load fs model_file of
        Inl e \<Rightarrow> Inl e
      | Inr (ModelTuple vocabulary idf clf names) \<Rightarrow> Inl AttributeError
      | Inr (Bunch training_set) \<Rightarrow>
          (case fit analyzer training_set of
             Inl e \<Rightarrow> Inl e
           | Inr fitted \<Rightarrow> predict analyzer fitted (target_names training_set) test_phrase))"

text \<open>
  Modelled from the spec: the analyzer of \<^verbatim>\<open>CountVectorizer\<close> is missing. Section 4.2:
  lower-case, split on non-alphanumeric boundaries, drop tokens shorter than 2 characters
  (on ASCII). It is used only where a concrete analyzer is needed.
\<close>

definition is_alnum :: "char \<Rightarrow> bool" where
  "is_alnum c =
     (c \<in> set ''abcdefghijklmnopqrstuvwxyzABCDEFGHIJKLMNOPQRSTUVWXYZ0123456789'')"

fun split_words :: "string \<Rightarrow> string list" where
  "split_words [] = [[]]"
| "split_words (c # cs) =
     (if is_alnum c
      then (case split_words cs of
              [] \<Rightarrow> [[c]]
            | w # ws \<Rightarrow> (c # w) # ws)
      else [] # split_words cs)"

definition word_analyzer :: "string \<Rightarrow> string list" where
  "word_analyzer s = filter (\<lambda>w. 2 \<le> length w) (split_words (lower s))"

section \<open>Sample inputs\<close>

text \<open>
  The two records of the scenario of section 8, as lines of a JSON lines file, a parser
  that knows them, and a file system that holds only that file.
\<close>

definition red_line :: string where
  \<open>red_line = ''{"color":"red","size":"M"}'' @ newline\<close>

definition blue_line :: string where
  \<open>blue_line = ''{"color":"blue","size":"L"}'' @ newline\<close>

definition loads_color_size :: "string \<Rightarrow> py_error + string json" where
  "loads_color_size line =
     (if line = red_line then Inr (JObject [(''color'', ''red''), (''size'', ''M'')])
      else if line = blue_line then Inr (JObject [(''color'', ''blue''), (''size'', ''L'')])
      else Inl JSONDecodeError)"

definition fs_color_size :: filesystem where
  "fs_color_size = \<lparr>dirs = [], files = [([''in.jsonl''], Text (red_line @ blue_line))]\<rparr>"

text \<open>
  A file system after an earlier run: \<^verbatim>\<open>out/size/size.txt\<close> exists, and the input of
  the next run is the first record.
\<close>

definition fs_old_size :: filesystem where
  "fs_old_size =
     \<lparr>dirs = [[''out''], [''out'', ''size'']],
      files = [([''in.jsonl''], Text red_line),
               ([''out'', ''size'', ''size.txt''], Text (''XL'' @ newline))]\<rparr>"

text \<open>
  Input directories for training: one category; two categories, as \<^verbatim>\<open>do_prepare\<close>
  leaves them; two categories of which one has no document.
\<close>

definition fs_one_category :: filesystem where
  "fs_one_category =
     \<lparr>dirs = [[''in''], [''in'', ''color'']],
      files = [([''in'', ''color'', ''color.txt''],
                Text (''red'' @ newline @ ''blue'' @ newline))]\<rparr>"

definition fs_two_categories :: filesystem where
  "fs_two_categories =
     \<lparr>dirs = [[''in''], [''in'', ''color''], [''in'', ''size'']],
      files = [([''in'', ''color'', ''color.txt''],
                Text (''red'' @ newline @ ''blue'' @ newline)),
               ([''in'', ''size'', ''size.txt''],
                Text (''M'' @ newline @ ''L'' @ newline))]\<rparr>"

definition fs_empty_category :: filesystem where
  "fs_empty_category =
     \<lparr>dirs = [[''in''], [''in'', ''color''], [''in'', ''size'']],
      files = [([''in'', ''color'', ''color.txt''],
                Text (''red'' @ newline @ ''blue'' @ newline))]\<rparr>"

text \<open>A tuple of fitted parameters, and a file system whose model file holds it.\<close>

definition sample_model :: pyobj where
  "sample_model =
     ModelTuple [''blue'', ''red''] [1, 1]
       \<lparr>classes = [0], class_log_prior = [0], feature_log_prob = [[0, 0]]\<rparr>
       [''color'']"

definition fs_model_tuple :: filesystem where
  "fs_model_tuple = \<lparr>dirs = [], files = [([''model.pickle''], Pickled sample_model)]\<rparr>"

text \<open>
  A training set of two categories, \<^verbatim>\<open>finance\<close> with two documents and
  \<^verbatim>\<open>sports\<close> with one, and a file system whose model file holds it.
\<close>

definition sample_training_set :: bunch where
  "sample_training_set =
     \<lparr>data = [Utf8 ''the market closed higher'', Utf8 ''stocks fell'',
              Utf8 ''the team won the game''],
      filenames = [[''in'', ''finance'', ''a.txt''], [''in'', ''finance'', ''b.txt''],
                   [''in'', ''sports'', ''a.txt'']],
      target_names = [''finance'', ''sports''],
      target = [0, 0, 1]\<rparr>"


section \<open>The generator of JSON lines\<close>

lemma result_function_length:
  "length (yielded (result_function json_loads max_lines counter lines))
     \<le> nat (max_lines - counter)"
proof (induction lines arbitrary: counter)
  case Nil
  then show ?case by simp
next
  case (Cons line rest)
  show ?case
  proof (cases "max_lines \<noteq> 0 \<and> counter + 1 \<le> max_lines")
    case False
    then show ?thesis by (auto simp: Let_def)
  next
    case True
    show ?thesis
    proof (cases "json_loads line")
      case (Inl e)
      with True show ?thesis by (simp add: Let_def)
    next
      case (Inr d)
      obtain ds r where g: "result_function json_loads max_lines (counter + 1) rest = Generated ds r"
        by (cases "result_function json_loads max_lines (counter + 1) rest") auto
      from Cons.IH [of "counter + 1"] g have "length ds \<le> nat (max_lines - (counter + 1))"
        by simp
      with True have "Suc (length ds) \<le> nat (max_lines - counter)" by linarith
      with True Inr g show ?thesis by (simp add: Let_def)
    qed
  qed
qed

lemma result_function_zero: "result_function json_loads 0 counter lines = Generated [] None"
  by (cases lines) (simp_all add: Let_def)

lemma result_function_take:
  "result_function json_loads max_lines counter lines =
   result_function json_loads max_lines counter (take (nat (max_lines - counter)) lines)"
proof (induction lines arbitrary: counter)
  case Nil
  then show ?case by simp
next
  case (Cons line rest)
  show ?case
  proof (cases "max_lines \<noteq> 0 \<and> counter + 1 \<le> max_lines")
    case False
    show ?thesis
    proof (cases "max_lines = 0")
      case True
      then show ?thesis by (simp add: result_function_zero)
    next
      case nz: False
      with False have "nat (max_lines - counter) = 0" by simp
      with False show ?thesis by (simp add: Let_def)
    qed
  next
    case True
    then have k: "nat (max_lines - counter) = Suc (nat (max_lines - (counter + 1)))"
      by linarith
    show ?thesis
    proof (cases "json_loads line")
      case (Inl e)
      with True show ?thesis by (simp add: Let_def k del: One_nat_def)
    next
      case (Inr d)
      with True show ?thesis
        by (simp add: Let_def k Cons.IH [of "counter + 1", symmetric] del: One_nat_def)
    qed
  qed
qed

lemma result_function_all_parse:
  assumes "\<forall>l \<in> set lines. \<exists>d. json_loads l = Inr d"
    and "max_lines \<noteq> 0"
    and "counter + int (length lines) \<le> max_lines"
  shows "result_function json_loads max_lines counter lines =
         Generated (map (\<lambda>l. projr (json_loads l)) lines) None"
  using assms
proof (induction lines arbitrary: counter)
  case Nil
  then show ?case by simp
next
  case (Cons line rest)
  from Cons.prems obtain d where d: "json_loads line = Inr d" by auto
  from Cons.prems have "result_function json_loads max_lines (counter + 1) rest =
     Generated (map (\<lambda>l. projr (json_loads l)) rest) None"
    by (intro Cons.IH) auto
  with d Cons.prems show ?case by (simp add: Let_def)
qed

text \<open>
  C10. For a JSON lines file with content \<open>s\<close>, the generator built by
  \<^verbatim>\<open>get_generator_from_jsonlines\<close> yields at most \<open>max_lines\<close> records; it behaves as
  on the first \<open>max_lines\<close> lines alone, so no later line is parsed or can raise; when
  every one of these lines parses, it yields exactly their records, in order; with
  \<open>max_lines = 0\<close>, the default, it yields nothing. \<^verbatim>\<open>do_prepare\<close> calls it with 10000:
  what it collects and writes is determined by the first 10000 lines of the file.
\<close>

theorem get_generator_from_jsonlines_cap:
  assumes "open_read fs jsonlines_file = Inr (Text s)"
  shows "length (yielded (get_generator_from_jsonlines json_loads fs jsonlines_file max_lines))
           \<le> nat max_lines
       \<and> get_generator_from_jsonlines json_loads fs jsonlines_file max_lines =
           result_function json_loads max_lines 0 (take (nat max_lines) (readlines s))
       \<and> ((\<forall>l \<in> set (take (nat max_lines) (readlines s)). \<exists>d. json_loads l = Inr d) \<longrightarrow>
           get_generator_from_jsonlines json_loads fs jsonlines_file max_lines =
             Generated (map (\<lambda>l. projr (json_loads l)) (take (nat max_lines) (readlines s))) None)
       \<and> get_generator_from_jsonlines json_loads fs jsonlines_file 0 = Generated [] None
       \<and> do_prepare json_loads str fs jsonlines_file output_directory =
           (case result_function json_loads 10000 0 (take 10000 (readlines s)) of
              Generated dictionaries exc \<Rightarrow>
                (case collect_key_values [] dictionaries of
                   Inl e \<Rightarrow> (fs, Some e)
                 | Inr key_values \<Rightarrow>
                     (case exc of
                        Some e \<Rightarrow> (fs, Some e)
                      | None \<Rightarrow> write_output_files str output_directory key_values fs)))"
proof -
  have gen: "get_generator_from_jsonlines json_loads fs jsonlines_file m =
             result_function json_loads m 0 (readlines s)" for m
    using assms by (simp add: get_generator_from_jsonlines_def)
  have cut: "result_function json_loads m 0 (readlines s) =
             result_function json_loads m 0 (take (nat m) (readlines s))" for m
    using result_function_take [of json_loads m 0 "readlines s"] by simp
  have len: "length (yielded (get_generator_from_jsonlines json_loads fs jsonlines_file max_lines))
               \<le> nat max_lines"
    using result_function_length [of json_loads max_lines 0 "readlines s"] by (simp add: gen)
  have all: "get_generator_from_jsonlines json_loads fs jsonlines_file max_lines =
             Generated (map (\<lambda>l. projr (json_loads l)) (take (nat max_lines) (readlines s))) None"
    if ok: "\<forall>l \<in> set (take (nat max_lines) (readlines s)). \<exists>d. json_loads l = Inr d"
  proof (cases "max_lines \<le> 0")
    case True
    then have "nat max_lines = 0" by simp
    then show ?thesis by (simp add: gen cut [of max_lines])
  next
    case False
    then have "max_lines \<noteq> 0"
      and "0 + int (length (take (nat max_lines) (readlines s))) \<le> max_lines"
      by auto
    from result_function_all_parse [OF ok this] show ?thesis
      by (simp add: gen cut [of max_lines])
  qed
  have zero: "get_generator_from_jsonlines json_loads fs jsonlines_file 0 = Generated [] None"
    by (simp add: gen result_function_zero)
  have prep: "do_prepare json_loads str fs jsonlines_file output_directory =
           (case result_function json_loads 10000 0 (take 10000 (readlines s)) of
              Generated dictionaries exc \<Rightarrow>
                (case collect_key_values [] dictionaries of
                   Inl e \<Rightarrow> (fs, Some e)
                 | Inr key_values \<Rightarrow>
                     (case exc of
                        Some e \<Rightarrow> (fs, Some e)
                      | None \<Rightarrow> write_output_files str output_directory key_values fs)))"
    using cut [of 10000] by (simp add: do_prepare_def gen)
  from len gen cut all zero prep show ?thesis by simp
qed

lemma open_read_fs_color_size:
  "open_read fs_color_size ''in.jsonl'' = Inr (Text (red_line @ blue_line))"
  by (simp add: open_read_def fs_color_size_def path_of_def is_dir_def is_file_def ancestors_def)

lemma readlines_red_blue: "readlines (red_line @ blue_line) = [red_line, blue_line]"
  by (simp add: red_line_def blue_line_def newline_def)

theorem get_generator_from_jsonlines_cap_witness:
  "open_read fs_color_size ''in.jsonl'' = Inr (Text (red_line @ blue_line))
   \<and> get_generator_from_jsonlines loads_color_size fs_color_size ''in.jsonl'' 1 =
       Generated [JObject [(''color'', ''red''), (''size'', ''M'')]] None
   \<and> get_generator_from_jsonlines loads_color_size fs_color_size ''in.jsonl'' 0 =
       Generated [] None"
  using get_generator_from_jsonlines_cap [OF open_read_fs_color_size, of loads_color_size 1]
  by (simp add: open_read_fs_color_size readlines_red_blue loads_color_size_def)

section \<open>The prepare subcommand: what it writes\<close>

lemma path_of_samples [simp]:
  "path_of ''out//color'' = [''out'', ''color'']"
  "path_of ''out//color/color.txt'' = [''out'', ''color'', ''color.txt'']"
  "path_of ''out/color/color.txt'' = [''out'', ''color'', ''color.txt'']"
  "path_of ''out//size'' = [''out'', ''size'']"
  "path_of ''out//size/size.txt'' = [''out'', ''size'', ''size.txt'']"
  "path_of ''out/size/size.txt'' = [''out'', ''size'', ''size.txt'']"
  "path_of ''in.jsonl'' = [''in.jsonl'']"
  by (simp_all add: path_of_def)

lemma lower_samples [simp]: "lower ''color'' = ''color''" "lower ''size'' = ''size''"
  by (simp_all add: lower_def lower_char_def)

lemma ancestors_simps [simp]:
  "ancestors [a] = []" "ancestors [a, b] = [[a]]" "ancestors [a, b, c] = [[a], [a, b]]"
  by (simp_all add: ancestors_def upt_rec)

text \<open>
  C3. The input file holds the record \<^verbatim>\<open>{"color":"red","size":"M"}\<close> and then the
  record \<^verbatim>\<open>{"color":"blue","size":"L"}\<close>, which the JSON parser reads as such; the
  output root is \<^verbatim>\<open>out/\<close>, where no \<^verbatim>\<open>color\<close> or \<^verbatim>\<open>size\<close> entry exists yet.
  Then \<^verbatim>\<open>do_prepare\<close> succeeds, \<^verbatim>\<open>out/color/color.txt\<close> holds the lines
  \<^verbatim>\<open>red\<close>, \<^verbatim>\<open>blue\<close> and \<^verbatim>\<open>out/size/size.txt\<close> holds the lines \<^verbatim>\<open>M\<close>,
  \<^verbatim>\<open>L\<close>. The values are Python strings, which \<^verbatim>\<open>format\<close> prints as they are.
\<close>

theorem do_prepare_color_size:
  fixes json_loads :: "string \<Rightarrow> py_error + string json"
  assumes input: "open_read fs jsonlines_file = Inr (Text (red_line @ blue_line))"
    and red: "json_loads red_line = Inr (JObject [(''color'', ''red''), (''size'', ''M'')])"
    and blue: "json_loads blue_line = Inr (JObject [(''color'', ''blue''), (''size'', ''L'')])"
    and out: "\<not> is_file fs [''out'']"
    and fresh: "\<forall>p \<in> set (dirs fs @ map fst (files fs)).
                  take 2 p \<noteq> [''out'', ''color''] \<and> take 2 p \<noteq> [''out'', ''size'']"
  shows "snd (do_prepare json_loads (\<lambda>v. v) fs jsonlines_file ''out/'') = None
       \<and> open_read (fst (do_prepare json_loads (\<lambda>v. v) fs jsonlines_file ''out/''))
            ''out/color/color.txt'' = Inr (Text (''red'' @ newline @ ''blue'' @ newline))
       \<and> open_read (fst (do_prepare json_loads (\<lambda>v. v) fs jsonlines_file ''out/''))
            ''out/size/size.txt'' = Inr (Text (''M'' @ newline @ ''L'' @ newline))"
proof -
  have gen: "get_generator_from_jsonlines json_loads fs jsonlines_file 10000 =
        Generated [JObject [(''color'', ''red''), (''size'', ''M'')],
                   JObject [(''color'', ''blue''), (''size'', ''L'')]] None"
    using input red blue
    by (simp add: get_generator_from_jsonlines_def readlines_red_blue Let_def)
  have kv: "collect_key_values []
        [JObject [(''color'', ''red''), (''size'', ''M'')],
         JObject [(''color'', ''blue''), (''size'', ''L'')]]
      = Inr [(''color'', [''red'', ''blue'']), (''size'', [''M'', ''L''])]"
    by (simp add: append_value_def)
  have d: "p \<notin> set (dirs fs)"
    if "take 2 p = [''out'', ''color''] \<or> take 2 p = [''out'', ''size'']" for p
    using fresh that by auto
  have f: "map_of (files fs) p = None"
    if "take 2 p = [''out'', ''color''] \<or> take 2 p = [''out'', ''size'']" for p
    using fresh that by (auto simp: map_of_eq_None_iff)
  have o: "map_of (files fs) [''out''] = None"
    using out by (simp add: is_file_def)
  have wr: "write_output_files (\<lambda>v. v) ''out/''
        [(''color'', [''red'', ''blue'']), (''size'', [''M'', ''L''])] fs =
      (fs\<lparr>dirs := dirs fs @ filter (\<lambda>q. \<not> is_dir fs q) [[''out'']]
                   @ [[''out'', ''color''], [''out'', ''size'']],
          files := AList.update [''out'', ''size'', ''size.txt'']
                     (Text (''M'' @ newline @ ''L'' @ newline))
                     (AList.update [''out'', ''color'', ''color.txt'']
                        (Text (''red'' @ newline @ ''blue'' @ newline)) (files fs))\<rparr>, None)"
    by (simp add: os_makedirs_def open_write_def is_dir_def is_file_def d f o update_conv')
  have res: "do_prepare json_loads (\<lambda>v. v) fs jsonlines_file ''out/'' =
      (fs\<lparr>dirs := dirs fs @ filter (\<lambda>q. \<not> is_dir fs q) [[''out'']]
                   @ [[''out'', ''color''], [''out'', ''size'']],
          files := AList.update [''out'', ''size'', ''size.txt'']
                     (Text (''M'' @ newline @ ''L'' @ newline))
                     (AList.update [''out'', ''color'', ''color.txt'']
                        (Text (''red'' @ newline @ ''blue'' @ newline)) (files fs))\<rparr>, None)"
    by (simp only: do_prepare_def gen kv wr generated.case sum.case option.case)
  show ?thesis
    unfolding res
    by (simp add: open_read_def is_dir_def is_file_def d f o update_conv')
qed

theorem do_prepare_color_size_witness:
  "open_read fs_color_size ''in.jsonl'' = Inr (Text (red_line @ blue_line))
   \<and> loads_color_size red_line = Inr (JObject [(''color'', ''red''), (''size'', ''M'')])
   \<and> loads_color_size blue_line = Inr (JObject [(''color'', ''blue''), (''size'', ''L'')])
   \<and> \<not> is_file fs_color_size [''out'']
   \<and> snd (do_prepare loads_color_size (\<lambda>v. v) fs_color_size ''in.jsonl'' ''out/'') = None
   \<and> open_read (fst (do_prepare loads_color_size (\<lambda>v. v) fs_color_size ''in.jsonl'' ''out/''))
        ''out/color/color.txt'' = Inr (Text (''red'' @ newline @ ''blue'' @ newline))
   \<and> open_read (fst (do_prepare loads_color_size (\<lambda>v. v) fs_color_size ''in.jsonl'' ''out/''))
        ''out/size/size.txt'' = Inr (Text (''M'' @ newline @ ''L'' @ newline))"
proof -
  note input = open_read_fs_color_size
  have red: "loads_color_size red_line = Inr (JObject [(''color'', ''red''), (''size'', ''M'')])"
    by (simp add: loads_color_size_def)
  have blue: "loads_color_size blue_line = Inr (JObject [(''color'', ''blue''), (''size'', ''L'')])"
    by (simp add: loads_color_size_def red_line_def blue_line_def)
  have out: "\<not> is_file fs_color_size [''out'']"
    by (simp add: is_file_def fs_color_size_def)
  have fresh: "\<forall>p \<in> set (dirs fs_color_size @ map fst (files fs_color_size)).
                 take 2 p \<noteq> [''out'', ''color''] \<and> take 2 p \<noteq> [''out'', ''size'']"
    by (simp add: fs_color_size_def)
  from do_prepare_color_size [OF input red blue out fresh] input red blue out
  show ?thesis by simp
qed

section \<open>The prepare subcommand: an output directory that exists\<close>

lemma os_makedirs_keeps:
  assumes "os_makedirs name fs = (fs', r)"
  shows "is_dir fs p \<Longrightarrow> is_dir fs' p" and "is_file fs p \<Longrightarrow> is_file fs' p"
  using assms by (auto simp: os_makedirs_def Let_def is_dir_def is_file_def split: if_splits)

lemma open_write_keeps:
  assumes "open_write filename c fs = (fs', r)"
  shows "is_dir fs p \<Longrightarrow> is_dir fs' p" and "is_file fs p \<Longrightarrow> is_file fs' p"
  using assms
  by (auto simp: open_write_def Let_def is_dir_def is_file_def update_conv' split: if_splits)

lemma write_output_files_keeps:
  assumes "write_output_files str output_directory key_values fs = (fs', r)"
  shows "(is_dir fs p \<longrightarrow> is_dir fs' p) \<and> (is_file fs p \<longrightarrow> is_file fs' p)"
  using assms
proof (induction key_values arbitrary: fs)
  case Nil
  then show ?case by simp
next
  case (Cons kv rest)
  obtain key vs where kv: "kv = (key, vs)" by (cases kv)
  let ?directory = "output_directory @ ''/'' @ lower key"
  let ?filename = "?directory @ ''/'' @ key @ ''.txt''"
  obtain fs1 r1 where m: "os_makedirs ?directory fs = (fs1, r1)"
    by (cases "os_makedirs ?directory fs")
  obtain fs2 r2 where
    w: "open_write ?filename (Text (concat (map (\<lambda>v. str v @ newline) vs))) fs1 = (fs2, r2)"
    by (cases "open_write ?filename (Text (concat (map (\<lambda>v. str v @ newline) vs))) fs1")
  note k1 = os_makedirs_keeps [OF m, of p] and k2 = open_write_keeps [OF w, of p]
  show ?case
  proof (cases r1)
    case (Some e)
    with Cons.prems kv m k1 show ?thesis by (auto simp: Let_def)
  next
    case None
    show ?thesis
    proof (cases r2)
      case (Some e)
      with Cons.prems kv m w None k1 k2 show ?thesis by (auto simp: Let_def)
    next
      case n2: None
      with Cons.prems kv m w None
      have "write_output_files str output_directory rest fs2 = (fs', r)"
        by (simp add: Let_def)
      from Cons.IH [OF this] k1 k2 show ?thesis by blast
    qed
  qed
qed

lemma write_output_files_append:
  "write_output_files str output_directory (xs @ ys) fs =
     (case write_output_files str output_directory xs fs of
        (fs1, Some e) \<Rightarrow> (fs1, Some e)
      | (fs1, None) \<Rightarrow> write_output_files str output_directory ys fs1)"
proof (induction xs arbitrary: fs)
  case Nil
  then show ?case by simp
next
  case (Cons kv rest)
  obtain key vs where kv: "kv = (key, vs)" by (cases kv)
  show ?case
    unfolding kv
    by (simp add: Let_def Cons.IH split: prod.splits option.splits)
qed

lemma write_output_files_existing:
  assumes "is_dir fs (path_of (output_directory @ ''/'' @ lower key))
           \<or> is_file fs (path_of (output_directory @ ''/'' @ lower key))"
  shows "write_output_files str output_directory ((key, vs) # post) fs =
         (fs, Some FileExistsError)"
  using assms by (auto simp: Let_def os_makedirs_def)

lemma gen_old_size:
  "get_generator_from_jsonlines loads_color_size fs_old_size ''in.jsonl'' 10000 =
     Generated [JObject [(''color'', ''red''), (''size'', ''M'')]] None"
proof -
  have "readlines red_line = [red_line]"
    by (simp add: red_line_def newline_def)
  then show ?thesis
    by (simp add: get_generator_from_jsonlines_def open_read_def fs_old_size_def is_dir_def
        is_file_def Let_def loads_color_size_def)
qed

lemma kv_old_size:
  "collect_key_values [] [JObject [(''color'', ''red''), (''size'', ''M'')]] =
     Inr ([(''color'', [''red''])] @ (''size'', [''M'']) # [])"
  by (simp add: append_value_def)

text \<open>
  C6, as the claim states it, fails: after an earlier run has left \<^verbatim>\<open>out/size\<close>, a run
  on a record with the keys \<^verbatim>\<open>color\<close> and \<^verbatim>\<open>size\<close> raises \<^verbatim>\<open>FileExistsError\<close>
  at \<^verbatim>\<open>size\<close>, but it has written \<^verbatim>\<open>out/color/color.txt\<close> by then: the output root
  holds the new file of this run beside the old file of the earlier run.
\<close>

theorem do_prepare_partial_merge:
  "snd (do_prepare loads_color_size (\<lambda>v. v) fs_old_size ''in.jsonl'' ''out/'')
     = Some FileExistsError
   \<and> open_read fs_old_size ''out/color/color.txt'' = Inl FileNotFoundError
   \<and> open_read (fst (do_prepare loads_color_size (\<lambda>v. v) fs_old_size ''in.jsonl'' ''out/''))
        ''out/color/color.txt'' = Inr (Text (''red'' @ newline))
   \<and> open_read (fst (do_prepare loads_color_size (\<lambda>v. v) fs_old_size ''in.jsonl'' ''out/''))
        ''out/size/size.txt'' = Inr (Text (''XL'' @ newline))"
proof -
  have "do_prepare loads_color_size (\<lambda>v. v) fs_old_size ''in.jsonl'' ''out/'' =
        write_output_files (\<lambda>v. v) ''out/''
          [(''color'', [''red'']), (''size'', [''M''])] fs_old_size"
    using kv_old_size
    by (simp only: do_prepare_def gen_old_size generated.case sum.case option.case append.simps)
  also have "\<dots> =
     (\<lparr>dirs = [[''out''], [''out'', ''size''], [''out'', ''color'']],
       files = [([''in.jsonl''], Text red_line),
                ([''out'', ''size'', ''size.txt''], Text (''XL'' @ newline)),
                ([''out'', ''color'', ''color.txt''], Text (''red'' @ newline))]\<rparr>,
      Some FileExistsError)"
    by (simp add: os_makedirs_def open_write_def is_dir_def is_file_def fs_old_size_def)
  finally show ?thesis
    by (simp add: open_read_def is_dir_def is_file_def fs_old_size_def)
qed

text \<open>
  C6, amended. When the output subdirectory of a key exists before the run (as a directory
  or as a file), \<^verbatim>\<open>do_prepare\<close> fails: the exception is not caught. Either writing an
  earlier key already failed, or the keys before it have been written and
  \<^verbatim>\<open>os.makedirs\<close> raises \<^verbatim>\<open>FileExistsError\<close> at this key; the file system is then as
  the earlier keys left it, and nothing is written for this key or for a later one.
\<close>

theorem do_prepare_existing_directory:
  assumes gen: "get_generator_from_jsonlines json_loads fs jsonlines_file 10000 =
                  Generated dictionaries None"
    and kv: "collect_key_values [] dictionaries = Inr (pre @ (key, vs) # post)"
    and ex: "is_dir fs (path_of (output_directory @ ''/'' @ lower key))
             \<or> is_file fs (path_of (output_directory @ ''/'' @ lower key))"
  shows "\<exists>fs' e. do_prepare json_loads str fs jsonlines_file output_directory = (fs', Some e)
           \<and> (write_output_files str output_directory pre fs = (fs', Some e)
                \<or> write_output_files str output_directory pre fs = (fs', None)
                   \<and> e = FileExistsError)"
proof -
  obtain fs1 r1 where pre: "write_output_files str output_directory pre fs = (fs1, r1)"
    by (cases "write_output_files str output_directory pre fs")
  have run: "do_prepare json_loads str fs jsonlines_file output_directory =
             write_output_files str output_directory (pre @ (key, vs) # post) fs"
    by (simp add: do_prepare_def gen kv)
  show ?thesis
  proof (cases r1)
    case (Some e)
    with pre run show ?thesis by (simp add: write_output_files_append)
  next
    case None
    from write_output_files_keeps [OF pre] ex
    have "is_dir fs1 (path_of (output_directory @ ''/'' @ lower key))
          \<or> is_file fs1 (path_of (output_directory @ ''/'' @ lower key))"
      by blast
    from write_output_files_existing [OF this]
    have "write_output_files str output_directory ((key, vs) # post) fs1 =
          (fs1, Some FileExistsError)" .
    with pre run None show ?thesis by (simp add: write_output_files_append)
  qed
qed

theorem do_prepare_existing_directory_witness:
  "get_generator_from_jsonlines loads_color_size fs_old_size ''in.jsonl'' 10000 =
     Generated [JObject [(''color'', ''red''), (''size'', ''M'')]] None
   \<and> collect_key_values [] [JObject [(''color'', ''red''), (''size'', ''M'')]] =
       Inr ([(''color'', [''red''])] @ (''size'', [''M'']) # [])
   \<and> is_dir fs_old_size (path_of (''out/'' @ ''/'' @ lower ''size''))
   \<and> (\<exists>fs' e.
         do_prepare loads_color_size (\<lambda>v. v) fs_old_size ''in.jsonl'' ''out/'' = (fs', Some e)
         \<and> (write_output_files (\<lambda>v. v) ''out/'' [(''color'', [''red''])] fs_old_size
               = (fs', Some e)
            \<or> write_output_files (\<lambda>v. v) ''out/'' [(''color'', [''red''])] fs_old_size
                 = (fs', None)
               \<and> e = FileExistsError))"
proof -
  have ex: "is_dir fs_old_size (path_of (''out/'' @ ''/'' @ lower ''size''))"
    by (simp add: is_dir_def fs_old_size_def)
  from do_prepare_existing_directory [OF gen_old_size kv_old_size disjI1, OF ex, of "\<lambda>v. v"]
  show ?thesis using gen_old_size kv_old_size ex by blast
qed

section \<open>The model file\<close>

lemma ancestors_neq: "q \<in> set (ancestors p) \<Longrightarrow> q \<noteq> p"
  by (auto simp: ancestors_def)

lemma open_write_read:
  assumes "open_write filename c fs = (fs', None)"
  shows "open_read fs' filename = Inr c"
proof -
  let ?p = "path_of filename"
  from assms have nd: "\<not> is_dir fs ?p" and na: "\<forall>q \<in> set (ancestors ?p). \<not> is_file fs q"
    and fs': "fs' = fs\<lparr>files := AList.update ?p c (files fs)\<rparr>"
    by (auto simp: open_write_def Let_def split: if_splits)
  have "\<not> is_file fs' q" if "q \<in> set (ancestors ?p)" for q
    using that na ancestors_neq [OF that] by (simp add: fs' is_file_def update_conv')
  moreover have "\<not> is_dir fs' ?p" using nd by (simp add: fs' is_dir_def)
  moreover have "map_of (files fs') ?p = Some c" by (simp add: fs' update_conv')
  ultimately show ?thesis by (auto simp: open_read_def Let_def)
qed

lemma open_write_errors:
  assumes "open_write filename c fs = (fs', Some e)"
  shows "fs' = fs \<and> e \<in> {FileNotFoundError, NotADirectoryError, IsADirectoryError}"
  using assms by (auto simp: open_write_def Let_def split: if_splits)

lemma pickle_load_after_dump:
  assumes "pickle_dump obj model_file fs = (fs', None)"
  shows "pickle_load fs' model_file = Inr obj"
  using open_write_read [of model_file "Pickled obj" fs fs'] assms
  by (simp add: pickle_dump_def pickle_load_def)

lemma pickle_dump_writable:
  assumes "\<not> is_dir fs (path_of model_file)"
    and "\<forall>q \<in> set (ancestors (path_of model_file)). \<not> is_file fs q"
    and "is_dir fs (butlast (path_of model_file))"
  shows "\<exists>fs'. pickle_dump obj model_file fs = (fs', None)"
  using assms by (simp add: pickle_dump_def open_write_def Let_def)

lemma path_of_train_samples [simp]:
  "path_of ''in'' = [''in'']" "path_of ''model.pickle'' = [''model.pickle'']"
  by (simp_all add: path_of_def)



section \<open>The train subcommand: what it checks and what it writes\<close>

lemma load_files_labels:
  assumes "load_files fs container_path = Inr b"
  shows "length (data b) = length (target b)"
    and "\<forall>l \<in> set (target b). l < length (target_names b)"
  using assms
  by (auto simp: load_files_def Let_def in_set_enumerate_eq split: if_splits)

lemma load_files_errors:
  assumes "load_files fs container_path = Inl e"
  shows "e \<in> {FileNotFoundError, NotADirectoryError, IsADirectoryError}"
  using assms by (auto simp: load_files_def Let_def split: if_splits)

lemma load_files_one_category:
  "load_files fs_one_category ''in'' =
     Inr \<lparr>data = [Utf8 (''red'' @ newline @ ''blue'' @ newline)],
          filenames = [[''in'', ''color'', ''color.txt'']],
          target_names = [''color''], target = [0]\<rparr>"
  by (simp add: load_files_def fs_one_category_def is_file_def is_dir_def sorted_listdir_def
      read_bytes_def Let_def enumerate_eq_zip)

lemma load_files_two_categories:
  "load_files fs_two_categories ''in'' =
     Inr \<lparr>data = [Utf8 (''red'' @ newline @ ''blue'' @ newline),
                  Utf8 (''M'' @ newline @ ''L'' @ newline)],
          filenames = [[''in'', ''color'', ''color.txt''], [''in'', ''size'', ''size.txt'']],
          target_names = [''color'', ''size''], target = [0, 1]\<rparr>"
  by (simp add: load_files_def fs_two_categories_def is_file_def is_dir_def sorted_listdir_def
      read_bytes_def Let_def enumerate_eq_zip upt_rec)

lemma load_files_empty_category:
  "load_files fs_empty_category ''in'' =
     Inr \<lparr>data = [Utf8 (''red'' @ newline @ ''blue'' @ newline)],
          filenames = [[''in'', ''color'', ''color.txt'']],
          target_names = [''color'', ''size''], target = [0]\<rparr>"
  by (simp add: load_files_def fs_empty_category_def is_file_def is_dir_def sorted_listdir_def
      read_bytes_def Let_def enumerate_eq_zip upt_rec)

text \<open>
  C2, as the claim states it, fails: on an input directory with the single category
  \<^verbatim>\<open>color\<close>, \<^verbatim>\<open>do_train\<close> raises nothing and writes the model file.
\<close>

theorem do_train_one_category:
  "snd (do_train fs_one_category ''in'' ''model.pickle'') = None
   \<and> pickle_load (fst (do_train fs_one_category ''in'' ''model.pickle'')) ''model.pickle'' =
       Inr (Bunch \<lparr>data = [Utf8 (''red'' @ newline @ ''blue'' @ newline)],
                   filenames = [[''in'', ''color'', ''color.txt'']],
                   target_names = [''color''], target = [0]\<rparr>)"
proof -
  let ?b = "\<lparr>data = [Utf8 (''red'' @ newline @ ''blue'' @ newline)],
             filenames = [[''in'', ''color'', ''color.txt'']],
             target_names = [''color''], target = [0]\<rparr>"
  have "\<exists>fs'. pickle_dump (Bunch ?b) ''model.pickle'' fs_one_category = (fs', None)"
    by (rule pickle_dump_writable) (simp_all add: is_dir_def is_file_def fs_one_category_def)
  then obtain fs' where d: "pickle_dump (Bunch ?b) ''model.pickle'' fs_one_category = (fs', None)" ..
  then have "do_train fs_one_category ''in'' ''model.pickle'' = (fs', None)"
    by (simp add: do_train_def load_files_one_category)
  with pickle_load_after_dump [OF d] show ?thesis by simp
qed

text \<open>
  C2, amended. \<^verbatim>\<open>do_train\<close> makes no check of the training data. When it fails, the
  exception is the I/O error of reading the input directory or of opening the model file,
  and the file system is unchanged: no model file is written. Whenever the input directory
  can be loaded, with any number of categories and of documents per category, the label
  list has the length of the document list and, if the model file can be opened for
  writing, \<^verbatim>\<open>do_train\<close> succeeds and the model file holds the loaded training set.
\<close>

theorem do_train_no_check:
  "(\<forall>fs' e. do_train fs input_directory model_file = (fs', Some e) \<longrightarrow>
       fs' = fs \<and> e \<in> {FileNotFoundError, NotADirectoryError, IsADirectoryError})
   \<and> (\<forall>training_set. load_files fs input_directory = Inr training_set \<longrightarrow>
         length (target training_set) = length (data training_set)
         \<and> (\<not> is_dir fs (path_of model_file)
            \<and> (\<forall>q \<in> set (ancestors (path_of model_file)). \<not> is_file fs q)
            \<and> is_dir fs (butlast (path_of model_file)) \<longrightarrow>
            (\<exists>fs'. do_train fs input_directory model_file = (fs', None)
                  \<and> pickle_load fs' model_file = Inr (Bunch training_set))))"
proof (intro conjI allI impI)
  fix fs' e
  assume "do_train fs input_directory model_file = (fs', Some e)"
  then show "fs' = fs" and "e \<in> {FileNotFoundError, NotADirectoryError, IsADirectoryError}"
    using load_files_errors [of fs input_directory] open_write_errors [of model_file _ fs fs' e]
    by (auto simp: do_train_def pickle_dump_def split: sum.splits)
next
  fix training_set
  assume "load_files fs input_directory = Inr training_set"
  then show "length (target training_set) = length (data training_set)"
    using load_files_labels(1) by simp
next
  fix training_set
  assume l: "load_files fs input_directory = Inr training_set"
    and w: "\<not> is_dir fs (path_of model_file)
            \<and> (\<forall>q \<in> set (ancestors (path_of model_file)). \<not> is_file fs q)
            \<and> is_dir fs (butlast (path_of model_file))"
  from w obtain fs' where d: "pickle_dump (Bunch training_set) model_file fs = (fs', None)"
    using pickle_dump_writable [of fs model_file "Bunch training_set"] by blast
  from pickle_load_after_dump [OF d] d l
  show "\<exists>fs'. do_train fs input_directory model_file = (fs', None)
                  \<and> pickle_load fs' model_file = Inr (Bunch training_set)"
    by (simp add: do_train_def)
qed

theorem do_train_no_check_witness:
  "load_files fs_empty_category ''in'' =
     Inr \<lparr>data = [Utf8 (''red'' @ newline @ ''blue'' @ newline)],
          filenames = [[''in'', ''color'', ''color.txt'']],
          target_names = [''color'', ''size''], target = [0]\<rparr>
   \<and> \<not> is_dir fs_empty_category (path_of ''model.pickle'')
   \<and> is_dir fs_empty_category (butlast (path_of ''model.pickle''))
   \<and> (\<exists>fs'. do_train fs_empty_category ''in'' ''model.pickle'' = (fs', None)
         \<and> pickle_load fs' ''model.pickle'' =
             Inr (Bunch \<lparr>data = [Utf8 (''red'' @ newline @ ''blue'' @ newline)],
                         filenames = [[''in'', ''color'', ''color.txt'']],
                         target_names = [''color'', ''size''], target = [0]\<rparr>))"
proof -
  have w: "\<not> is_dir fs_empty_category (path_of ''model.pickle'')
        \<and> (\<forall>q \<in> set (ancestors (path_of ''model.pickle'')). \<not> is_file fs_empty_category q)
        \<and> is_dir fs_empty_category (butlast (path_of ''model.pickle''))"
    by (simp add: is_dir_def fs_empty_category_def)
  from do_train_no_check [of fs_empty_category "''in''" "''model.pickle''"]
    load_files_empty_category w
  show ?thesis by blast
qed

text \<open>
  C1, as the claim states it, fails: the object that \<^verbatim>\<open>do_train\<close> leaves in the model
  file is not a tuple of fitted parameters, and \<^verbatim>\<open>do_test_phrase\<close> cannot predict from
  a model file that holds such a tuple.
\<close>

theorem do_train_artifact_not_fitted:
  "\<not> (\<exists>vocabulary idf clf names.
        pickle_load (fst (do_train fs_two_categories ''in'' ''model.pickle'')) ''model.pickle''
          = Inr (ModelTuple vocabulary idf clf names))
   \<and> pickle_load fs_model_tuple ''model.pickle'' = Inr sample_model
   \<and> do_test_phrase word_analyzer fs_model_tuple ''model.pickle'' ''red'' = Inl AttributeError"
proof -
  let ?b = "\<lparr>data = [Utf8 (''red'' @ newline @ ''blue'' @ newline),
                    Utf8 (''M'' @ newline @ ''L'' @ newline)],
             filenames = [[''in'', ''color'', ''color.txt''], [''in'', ''size'', ''size.txt'']],
             target_names = [''color'', ''size''], target = [0, 1]\<rparr>"
  have "\<exists>fs'. pickle_dump (Bunch ?b) ''model.pickle'' fs_two_categories = (fs', None)"
    by (rule pickle_dump_writable) (simp_all add: is_dir_def is_file_def fs_two_categories_def)
  then obtain fs' where d: "pickle_dump (Bunch ?b) ''model.pickle'' fs_two_categories = (fs', None)" ..
  then have t: "do_train fs_two_categories ''in'' ''model.pickle'' = (fs', None)"
    by (simp add: do_train_def load_files_two_categories)
  have l: "pickle_load fs_model_tuple ''model.pickle'' = Inr sample_model"
    by (simp add: pickle_load_def open_read_def fs_model_tuple_def is_dir_def is_file_def)
  then have "do_test_phrase word_analyzer fs_model_tuple ''model.pickle'' ''red'' = Inl AttributeError"
    by (simp add: do_test_phrase_def sample_model_def)
  with pickle_load_after_dump [OF d] t l show ?thesis by simp
qed

text \<open>
  C1, amended. The object that \<^verbatim>\<open>do_train\<close> writes is the training set it loaded
  (documents, file names, category names and labels): training fits nothing.
  \<^verbatim>\<open>do_test_phrase\<close> fits the vocabulary, the IDF weights and the classifier from that
  training set on every call, and then predicts; given a model file that holds a tuple of
  fitted parameters, it raises \<^verbatim>\<open>AttributeError\<close>.
\<close>

theorem do_train_dumps_training_set:
  assumes "do_train fs input_directory model_file = (fs', None)"
  shows "(\<exists>training_set.
            load_files fs input_directory = Inr training_set
            \<and> pickle_load fs' model_file = Inr (Bunch training_set)
            \<and> do_test_phrase analyzer fs' model_file test_phrase =
                (case fit analyzer training_set of
                   Inl e \<Rightarrow> Inl e
                 | Inr fitted \<Rightarrow>
                     predict analyzer fitted (target_names training_set) test_phrase))
       \<and> (\<forall>fs2 vocabulary idf clf names.
            pickle_load fs2 model_file = Inr (ModelTuple vocabulary idf clf names) \<longrightarrow>
            do_test_phrase analyzer fs2 model_file test_phrase = Inl AttributeError)"
proof -
  from assms obtain training_set where l: "load_files fs input_directory = Inr training_set"
    and d: "pickle_dump (Bunch training_set) model_file fs = (fs', None)"
    by (auto simp: do_train_def split: sum.splits)
  from pickle_load_after_dump [OF d]
  have p: "pickle_load fs' model_file = Inr (Bunch training_set)" .
  then have "do_test_phrase analyzer fs' model_file test_phrase =
                (case fit analyzer training_set of
                   Inl e \<Rightarrow> Inl e
                 | Inr fitted \<Rightarrow>
                     predict analyzer fitted (target_names training_set) test_phrase)"
    by (simp add: do_test_phrase_def)
  with l p show ?thesis by (simp add: do_test_phrase_def)
qed

theorem do_train_dumps_training_set_witness:
  "\<exists>fs'. do_train fs_two_categories ''in'' ''model.pickle'' = (fs', None)
     \<and> (\<exists>training_set.
            load_files fs_two_categories ''in'' = Inr training_set
            \<and> pickle_load fs' ''model.pickle'' = Inr (Bunch training_set)
            \<and> do_test_phrase word_analyzer fs' ''model.pickle'' ''red'' =
                (case fit word_analyzer training_set of
                   Inl e \<Rightarrow> Inl e
                 | Inr fitted \<Rightarrow>
                     predict word_analyzer fitted (target_names training_set) ''red''))"
proof -
  let ?b = "\<lparr>data = [Utf8 (''red'' @ newline @ ''blue'' @ newline),
                    Utf8 (''M'' @ newline @ ''L'' @ newline)],
             filenames = [[''in'', ''color'', ''color.txt''], [''in'', ''size'', ''size.txt'']],
             target_names = [''color'', ''size''], target = [0, 1]\<rparr>"
  have "\<exists>fs'. pickle_dump (Bunch ?b) ''model.pickle'' fs_two_categories = (fs', None)"
    by (rule pickle_dump_writable) (simp_all add: is_dir_def is_file_def fs_two_categories_def)
  then obtain fs' where d: "pickle_dump (Bunch ?b) ''model.pickle'' fs_two_categories = (fs', None)" ..
  then have t: "do_train fs_two_categories ''in'' ''model.pickle'' = (fs', None)"
    by (simp add: do_train_def load_files_two_categories)
  from do_train_dumps_training_set [OF t, of word_analyzer "''red''"] t
  show ?thesis by blast
qed

section \<open>Fitting: priors and IDF weights\<close>

lemma sum_count_list: "(\<Sum>x \<in> set xs. count_list xs x) = length xs"
  using sum_list_map_eq_sum_count [of "\<lambda>_. 1::nat" xs] by (simp add: sum_list_triv)

lemma nb_fit_Inr:
  assumes "nb_fit X y = Inr clf"
  shows "length X = length y" and "X \<noteq> []"
    and "classes clf = sort (remdups y)"
    and "class_log_prior clf =
           map (\<lambda>c. ln (real (count_list y c)) - ln (real (length y))) (sort (remdups y))"
    and "feature_log_prob clf =
           map (\<lambda>c. map (\<lambda>v. ln v - ln (sum_list (map (\<lambda>v. v + 1) (feature_count X y c))))
                       (map (\<lambda>v. v + 1) (feature_count X y c)))
               (sort (remdups y))"
proof -
  have total: "sum_list (map (\<lambda>c. real (count_list y c)) (sort (remdups y))) = real (length y)"
  proof -
    have "sum_list (map (\<lambda>c. real (count_list y c)) (sort (remdups y)))
            = (\<Sum>c \<in> set y. real (count_list y c))"
      by (subst sum_list_distinct_conv_sum_set) simp_all
    also have "\<dots> = real (\<Sum>c \<in> set y. count_list y c)" by simp
    finally show ?thesis by (simp add: sum_count_list)
  qed
  from assms show "length X = length y" and "X \<noteq> []"
    by (auto simp: nb_fit_def split: if_splits)
  from assms show "classes clf = sort (remdups y)"
    by (auto simp: nb_fit_def Let_def split: if_splits)
  from assms show "class_log_prior clf =
           map (\<lambda>c. ln (real (count_list y c)) - ln (real (length y))) (sort (remdups y))"
    by (auto simp: nb_fit_def Let_def total comp_def split: if_splits)
  from assms show "feature_log_prob clf =
           map (\<lambda>c. map (\<lambda>v. ln v - ln (sum_list (map (\<lambda>v. v + 1) (feature_count X y c))))
                       (map (\<lambda>v. v + 1) (feature_count X y c)))
               (sort (remdups y))"
    by (auto simp: nb_fit_def Let_def comp_def split: if_splits)
qed

lemma nb_fit_priors_sum:
  assumes "nb_fit X y = Inr clf"
  shows "sum_list (map exp (class_log_prior clf)) = 1"
proof -
  note f = nb_fit_Inr [OF assms]
  from f(1,2) have n: "0 < length y" by (cases y) auto
  have e: "exp (ln (real (count_list y c)) - ln (real (length y)))
             = real (count_list y c) / real (length y)" if "c \<in> set y" for c
  proof -
    from that have "0 < count_list y c" by (simp add: count_list_0_iff zero_less_iff_neq_zero)
    with n show ?thesis by (simp add: exp_diff)
  qed
  have "sum_list (map exp (class_log_prior clf))
          = (\<Sum>c \<in> set y. exp (ln (real (count_list y c)) - ln (real (length y))))"
    unfolding f(4) map_map comp_def
    by (subst sum_list_distinct_conv_sum_set) simp_all
  also have "\<dots> = (\<Sum>c \<in> set y. real (count_list y c) / real (length y))"
    by (rule sum.cong) (simp_all add: e)
  also have "\<dots> = real (\<Sum>c \<in> set y. count_list y c) / real (length y)"
    by (simp add: sum_divide_distrib)
  also have "\<dots> = 1" using n by (simp add: sum_count_list)
  finally show ?thesis .
qed

lemma sort_remdups_upt:
  assumes "set y = {0..<K}"
  shows "sort (remdups y) = [0..<K]"
proof (rule sorted_distinct_set_unique)
  show "set (sort (remdups y)) = set [0..<K]" using assms by simp
qed simp_all

text \<open>
  C8. For every matrix \<open>X\<close> and label list \<open>y\<close> of the same length in which each of the
  \<open>K > 0\<close> categories has at least one document, fitting succeeds with one class per
  category, the log-prior of a category is the log of its fraction of the documents, and
  the exponentials of the log-priors sum to 1 (over the reals).
\<close>

theorem log_priors_sum_to_one:
  assumes "length X = length y" and "0 < K" and "set y = {0..<K}"
  shows "\<exists>clf. nb_fit X y = Inr clf
           \<and> classes clf = [0..<K]
           \<and> length (class_log_prior clf) = K
           \<and> (\<forall>c < K. class_log_prior clf ! c = ln (real (count_list y c) / real (length y)))
           \<and> sum_list (map exp (class_log_prior clf)) = 1"
proof -
  from assms have ne: "y \<noteq> []" by auto
  with assms(1) have "X \<noteq> []" by auto
  with assms(1) obtain clf where fit: "nb_fit X y = Inr clf"
    by (auto simp: nb_fit_def Let_def)
  note f = nb_fit_Inr [OF fit]
  have cs: "sort (remdups y) = [0..<K]" by (rule sort_remdups_upt) fact
  have "class_log_prior clf ! c = ln (real (count_list y c) / real (length y))" if "c < K" for c
  proof -
    from that assms(3) have "c \<in> set y" by simp
    then have "0 < count_list y c" by (simp add: count_list_0_iff zero_less_iff_neq_zero)
    moreover from ne have "0 < length y" by simp
    ultimately show ?thesis using that by (simp add: f(4) cs ln_div)
  qed
  moreover have "length (class_log_prior clf) = K" by (simp add: f(4) cs)
  moreover have "classes clf = [0..<K]" by (simp add: f(3) cs)
  ultimately show ?thesis using fit nb_fit_priors_sum [OF fit] by blast
qed

lemma count_vect_fit_transform_Inr:
  assumes "count_vect_fit_transform analyzer raw_documents = Inr (vocabulary, counts)"
  shows "vocabulary = sort (remdups (concat (map (terms_of analyzer) raw_documents)))"
    and "counts = map (\<lambda>d. map (count_list (terms_of analyzer d)) vocabulary) raw_documents"
    and "vocabulary \<noteq> []" and "raw_documents \<noteq> []" and "Binary \<notin> set raw_documents"
  using assms
  by (auto simp: count_vect_fit_transform_def Let_def comp_def split: if_splits)

lemma n_features_counts:
  assumes "raw_documents \<noteq> []"
  shows "n_features (map (\<lambda>d. map (f d) vocabulary) raw_documents) = length vocabulary"
  using assms by (cases raw_documents) (simp_all add: n_features_def)

lemma document_frequency_counts:
  assumes "i < length vocabulary"
  shows "document_frequency
           (map (\<lambda>d. map (count_list (terms_of analyzer d)) vocabulary) raw_documents) i
         = length (filter (\<lambda>d. vocabulary ! i \<in> set (terms_of analyzer d)) raw_documents)"
proof -
  have "(0 < count_list ts t) = (t \<in> set ts)" for ts and t :: string
    using count_list_0_iff [of ts t] by auto
  with assms show ?thesis
    by (simp add: document_frequency_def filter_map comp_def)
qed

text \<open>
  C9. For every training corpus and every term of the fitted vocabulary, the IDF weight of
  the term is log((1 + N) / (1 + df)) + 1, where N is the number of training documents
  and df the number of training documents that contain the term.
\<close>

theorem idf_weight:
  assumes "count_vect_fit_transform analyzer raw_documents = Inr (vocabulary, counts)"
    and "i < length vocabulary"
  shows "length (tfidf_fit counts) = length vocabulary
       \<and> tfidf_fit counts ! i =
           ln ((1 + real (length raw_documents))
               / (1 + real (length (filter (\<lambda>d. vocabulary ! i \<in> set (terms_of analyzer d))
                                      raw_documents)))) + 1"
proof -
  note c = count_vect_fit_transform_Inr [OF assms(1)]
  have n: "n_features counts = length vocabulary"
    unfolding c(2) using c(4) by (rule n_features_counts)
  have "document_frequency counts i =
          length (filter (\<lambda>d. vocabulary ! i \<in> set (terms_of analyzer d)) raw_documents)"
    unfolding c(2) using assms(2) by (rule document_frequency_counts)
  moreover have "length counts = length raw_documents" by (simp add: c(2))
  ultimately show ?thesis using assms(2) by (simp add: tfidf_fit_def n)
qed

section \<open>Prediction for a phrase outside the vocabulary\<close>











section \<open>Order of the training documents\<close>











section \<open>The theorems on the sample training set\<close>

lemma word_analyzer_samples:
  "word_analyzer ''the market closed higher'' = [''the'', ''market'', ''closed'', ''higher'']"
  "word_analyzer ''stocks fell'' = [''stocks'', ''fell'']"
  "word_analyzer ''the team won the game'' = [''the'', ''team'', ''won'', ''the'', ''game'']"
  "word_analyzer ''zzz qqq'' = [''zzz'', ''qqq'']"
  by (simp_all add: word_analyzer_def lower_def lower_char_def is_alnum_def)

lemma count_vect_sample:
  "count_vect_fit_transform word_analyzer (data sample_training_set) =
     Inr ([''closed'', ''fell'', ''game'', ''higher'', ''market'', ''stocks'', ''team'',
           ''the'', ''won''],
          [[1, 0, 0, 1, 1, 0, 0, 1, 0], [0, 1, 0, 0, 0, 1, 0, 0, 0],
           [0, 0, 1, 0, 0, 0, 1, 2, 1]])"
  by (simp add: count_vect_fit_transform_def sample_training_set_def terms_of_def
      word_analyzer_samples Let_def)

theorem log_priors_sum_to_one_witness:
  "length [[1], [1], [1 :: real]] = length [0, 0, 1 :: nat]
   \<and> set [0, 0, 1 :: nat] = {0..<2}
   \<and> (\<exists>clf. nb_fit [[1], [1], [1]] [0, 0, 1] = Inr clf
          \<and> classes clf = [0..<2]
          \<and> sum_list (map exp (class_log_prior clf)) = 1)"
proof -
  have s: "set [0, 0, 1 :: nat] = {0..<2}" by auto
  from log_priors_sum_to_one [of "[[1], [1], [1]]" "[0, 0, 1]" 2] s
  show ?thesis by auto
qed

theorem idf_weight_witness:
  "count_vect_fit_transform word_analyzer (data sample_training_set) =
     Inr ([''closed'', ''fell'', ''game'', ''higher'', ''market'', ''stocks'', ''team'',
           ''the'', ''won''],
          [[1, 0, 0, 1, 1, 0, 0, 1, 0], [0, 1, 0, 0, 0, 1, 0, 0, 0],
           [0, 0, 1, 0, 0, 0, 1, 2, 1]])
   \<and> tfidf_fit [[1, 0, 0, 1, 1, 0, 0, 1, 0], [0, 1, 0, 0, 0, 1, 0, 0, 0],
                 [0, 0, 1, 0, 0, 0, 1, 2, 1]] ! 7 = ln ((1 + 3) / (1 + 2)) + 1"
proof -
  from idf_weight [OF count_vect_sample, of 7]
  have "tfidf_fit [[1, 0, 0, 1, 1, 0, 0, 1, 0], [0, 1, 0, 0, 0, 1, 0, 0, 0],
                   [0, 0, 1, 0, 0, 0, 1, 2, 1]] ! 7 = ln ((1 + 3) / (1 + 2)) + 1"
    by (simp add: sample_training_set_def terms_of_def word_analyzer_samples)
  with count_vect_sample show ?thesis by (rule conjI)
qed




end
